theory Spec2Isabelle
  imports Main
begin

section \<open>Python values, exceptions and string primitives\<close>

text \<open>
  The module \<^verbatim>\<open>hl_parser.py\<close> reports every assembler error through
  \<^verbatim>\<open>AsmError_NO_RET(number, internalError)\<close>, which hands the message and the
  number to the output sink and then raises. The model keeps the number and the message
  in the exception value. The other constructors are the Python exceptions that the
  built-in operations of the module can raise.
\<close>

datatype error =
    AsmError nat string
  | KeyError string
  | IndexError
  | ValueError string
  | TypeError
  | AttributeError

text \<open>A token value is either text or an integer.\<close>

datatype pyval = PStr string | PInt int

text \<open>\<^verbatim>\<open>string.hexdigits\<close>\<close>

definition hexdigits :: string where
  "hexdigits = ''0123456789abcdefABCDEF''"

text \<open>
  The subscript \<^verbatim>\<open>xs[i]\<close> with an integer: an index from 0 reads from the front,
  an index from \<^verbatim>\<open>-len(xs)\<close> to -1 reads from the back, any other raises.
\<close>

definition py_index :: "'a list \<Rightarrow> int \<Rightarrow> error + 'a" where
  "py_index xs i =
     (if 0 \<le> i \<and> i < int (length xs) then Inr (xs ! nat i)
      else if - int (length xs) \<le> i \<and> i < 0 then Inr (xs ! nat (int (length xs) + i))
      else Inl IndexError)"

text \<open>\<^verbatim>\<open>string.hexdigits[loc]\<close>: a string of one character.\<close>

definition hexdigit_at :: "int \<Rightarrow> error + string" where
  "hexdigit_at loc = (case py_index hexdigits loc of Inl e \<Rightarrow> Inl e | Inr c \<Rightarrow> Inr [c])"

definition startswith :: "string \<Rightarrow> string \<Rightarrow> bool" where
  "startswith s p = (take (length p) s = p)"

definition endswith :: "string \<Rightarrow> string \<Rightarrow> bool" where
  "endswith s p = (length p \<le> length s \<and> drop (length s - length p) s = p)"

text \<open>\<^verbatim>\<open>str.lower()\<close> on a byte string: the ASCII capitals are folded.\<close>

definition lower_char :: "char \<Rightarrow> char" where
  "lower_char c =
     (case map_of (zip ''ABCDEFGHIJKLMNOPQRSTUVWXYZ'' ''abcdefghijklmnopqrstuvwxyz'') c of
        Some d \<Rightarrow> d
      | None \<Rightarrow> c)"

definition lower :: "string \<Rightarrow> string" where
  "lower s = map lower_char s"

text \<open>The conversion \<^verbatim>\<open>"%d" % n\<close>.\<close>

fun nat_digits :: "nat \<Rightarrow> string" where
  "nat_digits n =
     (if n < 10 then [''0123456789'' ! n]
      else nat_digits (n div 10) @ [''0123456789'' ! (n mod 10)])"

declare nat_digits.simps [simp del]

definition fmt_d :: "int \<Rightarrow> string" where
  "fmt_d i = (if i < 0 then CHR ''-'' # nat_digits (nat (- i)) else nat_digits (nat i))"

section \<open>The device tables and the symbol table\<close>

definition device_types :: "string \<rightharpoonup> int" where
  "device_types = map_of
     [(''tracker'', 4), (''irtx'', 5), (''irrx'', 6), (''beeper'', 7),
      (''motor-a'', 8), (''motor-b'', 9), (''led'', 0xa)]"

definition device_storage :: "string \<rightharpoonup> int" where
  "device_storage = map_of
     [(''tracker'', 4 + 0), (''irtx'', 2 + 0), (''irrx'', 5 + 0), (''beeper'', 7 + 0),
      (''motor-a'', 5 + 4), (''motor-b'', 5 + 4), (''led'', 4 + 0)]"

definition special_names :: "string list" where
  "special_names = [''_index'', ''_devices'', ''_timers'', ''_cpu'']"

definition reset_devices :: "string \<rightharpoonup> string \<times> int" where
  "reset_devices = map_of
     [(''_index'', (''index'', 12)), (''_devices'', (''devices'', 13)),
      (''_timers'', (''timers'', 14)), (''_cpu'', (''cpu'', 15))]"

definition reset_locations :: "string \<rightharpoonup> string \<times> int" where
  "reset_locations = map_of
     [(''c'', (''index'', 12)), (''d'', (''devices'', 13)),
      (''e'', (''timers'', 14)), (''f'', (''cpu'', 15))]"

text \<open>
  The two module-level dictionaries \<^verbatim>\<open>devices\<close> (user name to type and location) and
  \<^verbatim>\<open>locations\<close> (hex digit to type and location) are the state every operation
  reads or updates.
\<close>

record symtab =
  devices :: "string \<rightharpoonup> string \<times> int"
  locations :: "string \<rightharpoonup> string \<times> int"

text \<open>The state when the module has been loaded: both dictionaries are empty.\<close>

definition initial_symtab :: symtab where
  "initial_symtab = \<lparr>devices = Map.empty, locations = Map.empty\<rparr>"

definition reset_devices_and_locations :: "symtab \<Rightarrow> symtab" where
  "reset_devices_and_locations st = \<lparr>devices = reset_devices, locations = reset_locations\<rparr>"

text \<open>
  The statement \<^verbatim>\<open>if (name): name = name.lower()\<close>: an absent or empty name is
  left as it is.
\<close>

definition lowered_name :: "string option \<Rightarrow> string option" where
  "lowered_name name =
     (case name of None \<Rightarrow> None | Some n \<Rightarrow> if n \<noteq> [] then Some (lower n) else Some n)"

text \<open>The membership tests \<^verbatim>\<open>name in special_names\<close> and \<^verbatim>\<open>name in devices\<close>.\<close>

definition name_in :: "string option \<Rightarrow> string set \<Rightarrow> bool" where
  "name_in name S = (case name of None \<Rightarrow> False | Some n \<Rightarrow> n \<in> S)"

text \<open>The second location of a motor: the next one, and 0 after 11.\<close>

definition motor_second_loc :: "int \<Rightarrow> int" where
  "motor_second_loc loc = (if loc = 11 then 0 else loc + 1)"

text \<open>\<^verbatim>\<open>str(special_names)\<close>\<close>

definition str_special_names :: string where
  "str_special_names =
     ''['' @ CHR 0x27 # ''_index'' @ CHR 0x27 # '', '' @ CHR 0x27 # ''_devices'' @ CHR 0x27 #
     '', '' @ CHR 0x27 # ''_timers'' @ CHR 0x27 # '', '' @ CHR 0x27 # ''_cpu'' @ CHR 0x27 # '']''"

text \<open>
  \<^verbatim>\<open>add_device(loc, dtype, name=None)\<close>. The result pairs the outcome (the exception
  raised, or the value returned) with the dictionaries as the call leaves them.
\<close>

definition add_device :: "symtab \<Rightarrow> int \<Rightarrow> string \<Rightarrow> string option \<Rightarrow> (error + bool) \<times> symtab" where
  "add_device st loc dtype name =
     (if dtype \<notin> dom device_types then
        (Inl (AsmError 200 (''Unknown device type: '' @ dtype)), st)
      else if loc < 0 \<or> loc > 11 then
        (Inl (AsmError 201 (''Location ('' @ fmt_d loc @ '') outside of 0 to 11'')), st)
      else
        case hexdigit_at loc of
          Inl e \<Rightarrow> (Inl e, st)
        | Inr loc_hex \<Rightarrow>
           (case locations st loc_hex of
              Some occ \<Rightarrow>
                (Inl (AsmError 202 (''Location ('' @ fmt_d loc @
                   '') is already used with a unit of type: '' @ fst occ)), st)
            | None \<Rightarrow>
               (let name1 = lowered_name name in
                if name_in name1 (set special_names) then
                  (Inl (AsmError 203 (''DEVICE name can not be one of the built-in names '' @
                     str_special_names)), st)
                else if name_in name1 (dom (devices st)) then
                  (Inl (AsmError 204 (''DEVICE name already used: '' @ the name1)), st)
                else if dtype = ''tracker'' \<and> loc \<noteq> 0 then
                  (Inl (AsmError 205 (''A tracker device can only be located at 0, not location '' @
                     fmt_d loc)), st)
                else
                  case
                    (if dtype = ''motor-a'' \<or> dtype = ''motor-b'' then
                       (case hexdigit_at (motor_second_loc loc) of
                          Inl e \<Rightarrow> Inl e
                        | Inr motor_second_hex \<Rightarrow>
                           (case locations st motor_second_hex of
                              Some occ \<Rightarrow>
                                Inl (AsmError 206
                                  (''Motors require two locations yet the second location is already used with a '' @
                                   fst occ))
                            | None \<Rightarrow>
                                Inr (st\<lparr>locations := (locations st)
                                       (motor_second_hex \<mapsto> (''motor_second'', motor_second_loc loc))\<rparr>)))
                     else Inr st)
                  of
                    Inl e \<Rightarrow> (Inl e, st)
                  | Inr st1 \<Rightarrow>
                     (let st2 = st1\<lparr>locations := (locations st1)(loc_hex \<mapsto> (dtype, loc))\<rparr>;
                          st3 = (case name1 of
                                   None \<Rightarrow> st2
                                 | Some n \<Rightarrow>
                                     if n \<noteq> [] then st2\<lparr>devices := (devices st2)(n \<mapsto> (dtype, loc))\<rparr>
                                     else st2)
                      in (Inr True, st3)))))"

text \<open>\<^verbatim>\<open>get_location_type_and_size(location)\<close>\<close>

definition get_location_type_and_size :: "symtab \<Rightarrow> int \<Rightarrow> error + int \<times> int" where
  "get_location_type_and_size st location =
     (case hexdigit_at location of
        Inl e \<Rightarrow> Inl e
      | Inr loc_hex \<Rightarrow>
         (case locations st loc_hex of
            None \<Rightarrow> Inr (0, 0)
          | Some occ \<Rightarrow>
              if fst occ \<noteq> ''motor_second'' then
                (case device_types (fst occ) of
                   None \<Rightarrow> Inl (KeyError (fst occ))
                 | Some code \<Rightarrow>
                    (case device_storage (fst occ) of
                       None \<Rightarrow> Inl (KeyError (fst occ))
                     | Some storage \<Rightarrow> Inr (code, storage)))
              else Inr (0, 0)))"

text \<open>
  The states the module can be in: the one after loading, and every state a reset or a
  call of \<^verbatim>\<open>add_device\<close> (returning or raising) leaves behind.
\<close>

inductive reachable :: "symtab \<Rightarrow> bool" where
  reachable_initial: "reachable initial_symtab"
| reachable_reset: "reachable st \<Longrightarrow> reachable (reset_devices_and_locations st)"
| reachable_add: "reachable st \<Longrightarrow> reachable (snd (add_device st loc dtype name))"

text \<open>The states that follow a given state through further calls of \<^verbatim>\<open>add_device\<close>.\<close>

inductive declared_after :: "symtab \<Rightarrow> symtab \<Rightarrow> bool" where
  declared_refl: "declared_after st st"
| declared_step:
    "declared_after st st1 \<Longrightarrow> declared_after st (snd (add_device st1 loc dtype name))"

text \<open>The key of a slot in \<^verbatim>\<open>locations\<close>, for a slot from 0 to 11.\<close>

definition slot_hex :: "int \<Rightarrow> string" where
  "slot_hex loc = [hexdigits ! nat loc]"

text \<open>The dictionary \<^verbatim>\<open>devices\<close> after a declaration that passed every check.\<close>

definition bound_devices ::
  "symtab \<Rightarrow> int \<Rightarrow> string \<Rightarrow> string option \<Rightarrow> (string \<rightharpoonup> string \<times> int)" where
  "bound_devices st loc dtype name1 =
     (case name1 of
        None \<Rightarrow> devices st
      | Some n \<Rightarrow> if n \<noteq> [] then (devices st)(n \<mapsto> (dtype, loc)) else devices st)"

section \<open>Numerals\<close>

text \<open>
  Python's built-in \<^verbatim>\<open>int(text, base)\<close> on a string, for the bases the module passes
  (0, 2, 10 and 16): surrounding white space is dropped, a sign is read, then the radix
  prefix that the base admits, then at least one digit of the radix and nothing else.
  With base 0 the radix comes from the prefix; a leading zero without a letter means
  octal, as in Python 2, the language of the module. Anything else is a ValueError.
\<close>

definition py_isspace :: "char \<Rightarrow> bool" where
  "py_isspace c = (c \<in> set [CHR '' '', CHR 0x09, CHR 0x0A, CHR 0x0B, CHR 0x0C, CHR 0x0D])"

definition py_strip :: "string \<Rightarrow> string" where
  "py_strip s = rev (dropWhile py_isspace (rev (dropWhile py_isspace s)))"

definition digit_value :: "char \<Rightarrow> nat option" where
  "digit_value c = map_of (zip ''0123456789abcdefABCDEF''
     [0, 1, 2, 3, 4, 5, 6, 7, 8, 9, 10, 11, 12, 13, 14, 15, 10, 11, 12, 13, 14, 15]) c"

fun digits_value :: "nat \<Rightarrow> string \<Rightarrow> nat \<Rightarrow> nat option" where
  "digits_value b [] acc = Some acc"
| "digits_value b (c # cs) acc =
     (case digit_value c of
        None \<Rightarrow> None
      | Some d \<Rightarrow> if d < b then digits_value b cs (acc * b + d) else None)"

definition split_sign :: "string \<Rightarrow> bool \<times> string" where
  "split_sign t =
     (if startswith t ''-'' then (True, drop 1 t)
      else if startswith t ''+'' then (False, drop 1 t)
      else (False, t))"

definition split_radix :: "nat \<Rightarrow> string \<Rightarrow> nat \<times> string" where
  "split_radix base u =
     (if (base = 0 \<or> base = 16) \<and> lower (take 2 u) = ''0x'' then (16, drop 2 u)
      else if (base = 0 \<or> base = 8) \<and> lower (take 2 u) = ''0o'' then (8, drop 2 u)
      else if (base = 0 \<or> base = 2) \<and> lower (take 2 u) = ''0b'' then (2, drop 2 u)
      else if base = 0 then (if startswith u ''0'' then (8, u) else (10, u))
      else (base, u))"

definition py_int :: "string \<Rightarrow> nat \<Rightarrow> error + int" where
  "py_int s base =
     (case split_sign (py_strip s) of
        (neg, u) \<Rightarrow>
          (case split_radix base u of
             (b, ds) \<Rightarrow>
               if ds = [] then Inl (ValueError s)
               else
                 (case digits_value b ds 0 of
                    None \<Rightarrow> Inl (ValueError s)
                  | Some n \<Rightarrow> Inr (if neg then - int n else int n))))"

text \<open>\<^verbatim>\<open>ord(text)\<close>: the text must be one character.\<close>

definition py_ord :: "string \<Rightarrow> error + int" where
  "py_ord s = (if length s = 1 then Inr (int (of_char (hd s))) else Inl TypeError)"

text \<open>
  \<^verbatim>\<open>parse_bases(snum, string=False)\<close>. The argument is whatever a token holds; the
  string methods exist on text only.
\<close>

definition parse_bases :: "pyval \<Rightarrow> bool \<Rightarrow> error + int" where
  "parse_bases v string_flag =
     (case v of
        PInt i \<Rightarrow> Inl AttributeError
      | PStr snum \<Rightarrow>
          if startswith snum [CHR 0x27] \<and> endswith snum [CHR 0x27] then
            py_ord (butlast (tl snum))
          else if string_flag \<and> startswith snum [CHR 0x22] \<and> endswith snum [CHR 0x22] then
            Inl (AsmError 211 ''Error - use single quotes for an ascii constant'')
          else if endswith snum ''/2'' then py_int (take (length snum - 2) snum) 2
          else if endswith snum ''/10'' then py_int (take (length snum - 3) snum) 10
          else if endswith snum ''/16'' then py_int (take (length snum - 3) snum) 16
          else py_int snum 0)"

section \<open>Module and register references\<close>

definition registers :: "string \<rightharpoonup> (string \<rightharpoonup> int \<times> int)" where
  "registers = map_of
     [(''tracker'', map_of [(''status'', (0, 1)), (''output'', (1, 1)), (''lightlevel'', (2, 2))]),
      (''led'', map_of [(''status'', (0, 1)), (''output'', (1, 1)), (''lightlevel'', (2, 2))]),
      (''beeper'', map_of [(''status'', (0, 1)), (''action'', (1, 1)), (''freq'', (2, 2)),
         (''duration'', (4, 2)), (''tunecode'', (6, 1)), (''tunestring'', (7, 1)),
         (''tempo'', (8, 2))]),
      (''irtx'', map_of [(''action'', (0, 1)), (''char'', (1, 1))]),
      (''irrx'', map_of [(''status'', (0, 1)), (''action'', (1, 1)), (''check'', (2, 1)),
         (''match'', (3, 1)), (''char'', (4, 1))]),
      (''motor-a'', map_of [(''status'', (0, 1)), (''control'', (1, 1)), (''distance'', (2, 2))]),
      (''motor-b'', map_of [(''status'', (0, 1)), (''control'', (1, 1)), (''distance'', (2, 2))]),
      (''index'', map_of [(''action'', (0, 1)), (''8b1cursor'', (1, 1)), (''8b1step'', (2, 1)),
         (''8b1window'', (3, 1)), (''8b2cursor'', (4, 1)), (''8b2step'', (5, 1)),
         (''16b1cursor'', (6, 1)), (''16b1step'', (7, 1)),
         (''16b1window'', (8, 2)), (''16b2cursor'', (10, 1)), (''16b2step'', (11, 1)),
         (''16b1temp'', (12, 2)), (''16b2temp'', (14, 2)),
         (''8b1local'', (2, 1)), (''16b1local'', (4, 2)),
         (''8b2local'', (7, 1)), (''16b2local'', (10, 2))]),
      (''devices'', map_of [(''status'', (0, 1)), (''random'', (1, 1))]),
      (''timers'', map_of [(''status'', (0, 1)), (''action'', (1, 1)), (''pause'', (2, 2)),
         (''oneshot'', (4, 2)), (''system'', (6, 4))]),
      (''cpu'', map_of [(''acc'', (0, 2)), (''flags'', (2, 1)), (''counter'', (3, 1)),
         (''pc'', (4, 2)), (''sp'', (6, 2))])]"

text \<open>\<^verbatim>\<open>text.split(sep, maxsplit)\<close> with a separator of one character.\<close>

fun py_split :: "string \<Rightarrow> char \<Rightarrow> nat \<Rightarrow> string list" where
  "py_split s sep 0 = [s]"
| "py_split s sep (Suc n) =
     (if sep \<in> set s
      then takeWhile (\<lambda>c. c \<noteq> sep) s # py_split (drop 1 (dropWhile (\<lambda>c. c \<noteq> sep) s)) sep n
      else [s])"

text \<open>\<^verbatim>\<open>sub in text\<close> on strings: \<^verbatim>\<open>sub\<close> occurs in \<^verbatim>\<open>text\<close> as a substring.\<close>

fun py_contains :: "string \<Rightarrow> string \<Rightarrow> bool" where
  "py_contains [] sub = (sub = [])"
| "py_contains (c # cs) sub = (startswith (c # cs) sub \<or> py_contains cs sub)"

text \<open>\<^verbatim>\<open>parse_mod_reg(smodreg)\<close>\<close>

definition parse_mod_reg :: "symtab \<Rightarrow> string \<Rightarrow> error + int" where
  "parse_mod_reg st smodreg =
     (if length smodreg = 2 \<and> smodreg ! 0 \<in> set hexdigits \<and> smodreg ! 1 \<in> set hexdigits then
        py_int smodreg 16
      else if CHR '':'' \<in> set smodreg then
        (let part = py_split (lower smodreg) (CHR '':'') 2 in
         if length part \<noteq> 2 then
           Inl (AsmError 212 (''Invalid mod/reg syntax: '' @ smodreg))
         else
           case (case devices st (part ! 0) of
                   Some d \<Rightarrow> Some d
                 | None \<Rightarrow> locations st (part ! 0)) of
             None \<Rightarrow>
               Inl (AsmError 213 (''Didn't understand the module name/number: '' @ part ! 0))
           | Some (dtype, loc) \<Rightarrow>
              (case registers dtype of
                 None \<Rightarrow> Inl (KeyError dtype)
               | Some regs \<Rightarrow>
                  (case regs (part ! 1) of
                     Some reg \<Rightarrow> Inr (fst reg + push_bit 4 loc)
                   | None \<Rightarrow>
                       if py_contains ''0123456789abcdef'' (part ! 1) then
                         (case py_int (part ! 1) 16 of
                            Inl e \<Rightarrow> Inl e
                          | Inr v \<Rightarrow> Inr (v + push_bit 4 loc))
                       else
                         Inl (AsmError 214
                           (''Didn't understand the register name/number: '' @ part ! 1)))))
      else Inl (AsmError 215 (''Error - can't parse '' @ smodreg @ '' as a modreg'')))"

section \<open>Tokens and their accessors\<close>

text \<open>The class \<^verbatim>\<open>word\<close>: the fields \<^verbatim>\<open>type_\<close> and \<^verbatim>\<open>value_\<close>.\<close>

datatype word = Word (w_type: string) (w_value: pyval)

text \<open>\<^verbatim>\<open>word.num()\<close>\<close>

definition num :: "word \<Rightarrow> error + int" where
  "num w = parse_bases (w_value w) False"

text \<open>\<^verbatim>\<open>word.anum()\<close>\<close>

definition anum :: "word \<Rightarrow> error + pyval" where
  "anum w =
     (if w_type w \<notin> set [''arg'', ''const''] then
        Inl (AsmError 207 ''Expected an argument or constant!'')
      else if w_type w = ''const'' then Inr (w_value w)
      else (case parse_bases (w_value w) False of Inl e \<Rightarrow> Inl e | Inr n \<Rightarrow> Inr (PInt n)))"

section \<open>The line tokenizer\<close>

text \<open>
  The loop of \<^verbatim>\<open>prechop_line(line)\<close> over the characters of the line, with its four
  variables (\<^verbatim>\<open>comp\<close> is written \<open>comp1\<close>); it returns \<^verbatim>\<open>components\<close> and
  \<^verbatim>\<open>comp\<close> as they are when the loop ends or breaks.
\<close>

fun prechop_loop ::
  "string \<Rightarrow> string \<Rightarrow> bool \<Rightarrow> string list \<Rightarrow> string \<Rightarrow> string list \<times> string" where
  "prechop_loop [] in_string in_escape components comp1 = (components, comp1)"
| "prechop_loop (c # line) in_string in_escape components comp1 =
     (if c = CHR 0x0A then (components, comp1)
      else if in_escape then prechop_loop line in_string False components (comp1 @ [c])
      else if in_string \<noteq> [] \<and> c = CHR 0x5C then
        prechop_loop line in_string True components comp1
      else if c = CHR ''#'' \<and> in_string = [] then (components, comp1)
      else if in_string = [] \<and> c \<in> set [CHR 0x22] then
        prechop_loop line [c] in_escape components (comp1 @ [c])
      else if in_string \<noteq> [] \<and> [c] = in_string then
        prechop_loop line [] in_escape components (comp1 @ [c])
      else if in_string = [] \<and> c \<in> set [CHR '' '', CHR 0x09, CHR '',''] then
        prechop_loop line in_string in_escape
          (if comp1 \<noteq> [] then components @ [comp1] else components) []
      else prechop_loop line in_string in_escape components (comp1 @ [c]))"

definition prechop_line :: "string \<Rightarrow> string list" where
  "prechop_line line =
     (case prechop_loop line [] False [] [] of
        (components, comp1) \<Rightarrow> if comp1 \<noteq> [] then components @ [comp1] else components)"

text \<open>
  The body of the loop of \<^verbatim>\<open>chop_line(line)\<close> for one segment \<open>s\<close>, given the
  list \<^verbatim>\<open>words\<close> built so far: the segment is skipped (\<^verbatim>\<open>continue\<close>), ends the
  loop (\<^verbatim>\<open>break\<close>), or appends one word. An exception of a parser ends the call.
\<close>

datatype step = Skip | Stop | Emit word

definition chop_seg :: "symtab \<Rightarrow> word list \<Rightarrow> string \<Rightarrow> error + step" where
  "chop_seg st words s =
     (if s = [] then Inr Skip
      else if startswith s ''#'' then Inr Stop
      else if startswith s '':'' then Inr (Emit (Word ''label'' (PStr (drop 1 s))))
      else if words = [] then Inr (Emit (Word ''op'' (PStr s)))
      else if (startswith s [CHR 0x22] \<and> endswith s [CHR 0x22]) \<or>
              (startswith s [CHR 0x27] \<and> endswith s [CHR 0x27]) then
        (if length s \<le> 2 then Inr Skip
         else Inr (Emit (Word ''string'' (PStr (butlast (tl s))))))
      else if startswith s ''$'' then
        (case (if length s = 4 \<and> s ! 1 = CHR 0x27 \<and> s ! 3 = CHR 0x27 then py_ord [s ! 2]
               else parse_bases (PStr (drop 1 s)) False) of
           Inl e \<Rightarrow> Inl e
         | Inr n \<Rightarrow> Inr (Emit (Word ''const'' (PInt n))))
      else if startswith s ''%'' then
        (case parse_mod_reg st (drop 1 s) of
           Inl e \<Rightarrow> Inl e
         | Inr modreg \<Rightarrow> Inr (Emit (Word ''modreg'' (PInt modreg))))
      else if startswith s '':'' then Inr (Emit (Word ''label'' (PStr (drop 1 s))))
      else if startswith s ''@'' then Inr (Emit (Word ''var'' (PStr (drop 1 s))))
      else Inr (Emit (Word ''arg'' (PStr s))))"

fun chop_loop :: "symtab \<Rightarrow> string list \<Rightarrow> word list \<Rightarrow> error + word list" where
  "chop_loop st [] words = Inr words"
| "chop_loop st (s # segs) words =
     (case chop_seg st words s of
        Inl e \<Rightarrow> Inl e
      | Inr Skip \<Rightarrow> chop_loop st segs words
      | Inr Stop \<Rightarrow> Inr words
      | Inr (Emit w) \<Rightarrow> chop_loop st segs (words @ [w]))"

definition chop_line :: "symtab \<Rightarrow> string \<Rightarrow> error + word list" where
  "chop_line st line = chop_loop st (prechop_line line) []"

text \<open>
  What holds of the four variables of the loop of \<^verbatim>\<open>prechop_line\<close> before each
  character: no finished segment and no pending segment starts with \<^verbatim>\<open>#\<close>, the
  pending segment is not empty inside a string, and an escape is pending only inside a
  string.
\<close>

definition prechop_inv :: "string \<Rightarrow> bool \<Rightarrow> string list \<Rightarrow> string \<Rightarrow> bool" where
  "prechop_inv in_string in_escape components comp1 \<longleftrightarrow>
     (\<forall>s\<in>set components. s \<noteq> [] \<and> hd s \<noteq> CHR ''#'') \<and>
     (comp1 = [] \<or> hd comp1 \<noteq> CHR ''#'') \<and>
     (in_string \<noteq> [] \<longrightarrow> comp1 \<noteq> []) \<and>
     (in_escape \<longrightarrow> in_string \<noteq> [])"

section \<open>Properties of the symbol table\<close>

lemma hexdigit_at_slot:
  "0 \<le> loc \<Longrightarrow> loc \<le> 11 \<Longrightarrow> hexdigit_at loc = Inr (slot_hex loc)"
  by (simp add: hexdigit_at_def py_index_def hexdigits_def slot_hex_def)

lemma motor_second_loc_range:
  "0 \<le> loc \<Longrightarrow> loc \<le> 11 \<Longrightarrow> 0 \<le> motor_second_loc loc \<and> motor_second_loc loc \<le> 11"
  by (simp add: motor_second_loc_def)

lemma add_device_unfold:
  assumes "dtype \<in> dom device_types" "0 \<le> loc" "loc \<le> 11"
    and "locations st (slot_hex loc) = None"
  shows "add_device st loc dtype name =
     (if name_in (lowered_name name) (set special_names) then
        (Inl (AsmError 203 (''DEVICE name can not be one of the built-in names '' @
           str_special_names)), st)
      else if name_in (lowered_name name) (dom (devices st)) then
        (Inl (AsmError 204 (''DEVICE name already used: '' @ the (lowered_name name))), st)
      else if dtype = ''tracker'' \<and> loc \<noteq> 0 then
        (Inl (AsmError 205 (''A tracker device can only be located at 0, not location '' @
           fmt_d loc)), st)
      else if dtype = ''motor-a'' \<or> dtype = ''motor-b'' then
        (case locations st (slot_hex (motor_second_loc loc)) of
           Some occ \<Rightarrow>
             (Inl (AsmError 206
                (''Motors require two locations yet the second location is already used with a '' @
                 fst occ)), st)
         | None \<Rightarrow>
             (Inr True,
              \<lparr>devices = bound_devices st loc dtype (lowered_name name),
               locations = (locations st)
                 (slot_hex (motor_second_loc loc) \<mapsto> (''motor_second'', motor_second_loc loc),
                  slot_hex loc \<mapsto> (dtype, loc))\<rparr>))
      else
        (Inr True,
         \<lparr>devices = bound_devices st loc dtype (lowered_name name),
          locations = (locations st)(slot_hex loc \<mapsto> (dtype, loc))\<rparr>))"
proof -
  have m: "hexdigit_at (motor_second_loc loc) = Inr (slot_hex (motor_second_loc loc))"
    using motor_second_loc_range [OF assms(2,3)] by (simp add: hexdigit_at_slot)
  show ?thesis
    using assms
    by (simp add: add_device_def hexdigit_at_slot m Let_def bound_devices_def
          split: option.split)
qed


lemma add_device_unknown_type:
  "dtype \<notin> dom device_types \<Longrightarrow>
     add_device st loc dtype name = (Inl (AsmError 200 (''Unknown device type: '' @ dtype)), st)"
  by (simp add: add_device_def)

lemma add_device_out_of_range:
  "dtype \<in> dom device_types \<Longrightarrow> loc < 0 \<or> loc > 11 \<Longrightarrow>
     add_device st loc dtype name =
       (Inl (AsmError 201 (''Location ('' @ fmt_d loc @ '') outside of 0 to 11'')), st)"
  by (simp add: add_device_def)

lemma add_device_occupied:
  assumes "dtype \<in> dom device_types" "0 \<le> loc" "loc \<le> 11"
    and "locations st (slot_hex loc) = Some occ"
  shows "add_device st loc dtype name =
     (Inl (AsmError 202 (''Location ('' @ fmt_d loc @
         '') is already used with a unit of type: '' @ fst occ)), st)"
  using assms by (simp add: add_device_def hexdigit_at_slot)

lemma add_device_failure_state:
  assumes "add_device st loc dtype name = (Inl e, st')"
  shows "st' = st"
proof (cases "dtype \<in> dom device_types")
  case False
  then show ?thesis using assms by (simp add: add_device_unknown_type)
next
  case known: True
  show ?thesis
  proof (cases "loc < 0 \<or> loc > 11")
    case True
    then show ?thesis using assms known by (simp add: add_device_out_of_range)
  next
    case False
    then have r: "0 \<le> loc" "loc \<le> 11" by simp_all
    show ?thesis
    proof (cases "locations st (slot_hex loc)")
      case (Some occ)
      then show ?thesis using assms by (simp add: add_device_occupied [OF known r])
    next
      case None
      show ?thesis
        using assms unfolding add_device_unfold [OF known r None]
        by (simp split: if_splits option.splits)
    qed
  qed
qed

lemma add_device_success:
  assumes "add_device st loc dtype name = (Inr b, st')"
  shows "b \<and> dtype \<in> dom device_types \<and> 0 \<le> loc \<and> loc \<le> 11 \<and>
         locations st (slot_hex loc) = None \<and>
         \<not> name_in (lowered_name name) (set special_names) \<and>
         \<not> name_in (lowered_name name) (dom (devices st)) \<and>
         (dtype = ''tracker'' \<longrightarrow> loc = 0) \<and>
         devices st' = bound_devices st loc dtype (lowered_name name) \<and>
         (if dtype = ''motor-a'' \<or> dtype = ''motor-b''
          then locations st (slot_hex (motor_second_loc loc)) = None \<and>
               locations st' = (locations st)
                 (slot_hex (motor_second_loc loc) \<mapsto> (''motor_second'', motor_second_loc loc),
                  slot_hex loc \<mapsto> (dtype, loc))
          else locations st' = (locations st)(slot_hex loc \<mapsto> (dtype, loc)))"
proof -
  have known: "dtype \<in> dom device_types"
    using assms by (rule contrapos_pp) (simp add: add_device_unknown_type)
  have "\<not> (loc < 0 \<or> loc > 11)"
    using assms by (rule contrapos_pp) (simp add: add_device_out_of_range [OF known])
  then have r: "0 \<le> loc" "loc \<le> 11" by simp_all
  have free: "locations st (slot_hex loc) = None"
  proof (cases "locations st (slot_hex loc)")
    case (Some occ)
    then show ?thesis using assms by (simp add: add_device_occupied [OF known r])
  qed simp
  show ?thesis
    using assms known r free unfolding add_device_unfold [OF known r free]
    by (auto split: if_splits option.splits)
qed


lemma device_types_dom:
  "dom device_types =
     {''tracker'', ''irtx'', ''irrx'', ''beeper'', ''motor-a'', ''motor-b'', ''led''}"
  by (auto simp: device_types_def split: if_splits)

lemma device_storage_dom: "dom device_storage = dom device_types"
  unfolding device_types_dom by (auto simp: device_storage_def split: if_splits)

lemma device_type_not_marker: "dtype \<in> dom device_types \<Longrightarrow> dtype \<noteq> ''motor_second''"
  unfolding device_types_dom by auto

lemma resolve_bound_slot:
  assumes "0 \<le> slot" "slot \<le> 11" "locations st (slot_hex slot) = Some (dtype, l)"
    and "device_types dtype = Some code" "device_storage dtype = Some storage"
  shows "get_location_type_and_size st slot = Inr (code, storage)"
proof -
  have "dtype \<noteq> ''motor_second''"
    using assms(4) by (intro device_type_not_marker) auto
  then show ?thesis
    using assms by (simp add: get_location_type_and_size_def hexdigit_at_slot)
qed

text \<open>
  Claim C1. On a freshly reset symbol table, for a slot from 0 to 11 and a recognized
  device type, a call of \<^verbatim>\<open>add_device\<close> that succeeds is followed by a
  \<^verbatim>\<open>get_location_type_and_size\<close> of the same slot that returns the numeric code
  of the device type and its storage size.
\<close>

theorem declare_then_resolve:
  assumes "0 \<le> slot" "slot \<le> 11" "dtype \<in> dom device_types"
    and "add_device (reset_devices_and_locations st0) slot dtype name = (Inr True, st')"
  shows "\<exists>code storage. device_types dtype = Some code \<and> device_storage dtype = Some storage \<and>
           get_location_type_and_size st' slot = Inr (code, storage)"
proof -
  obtain code where c: "device_types dtype = Some code"
    using assms(3) by auto
  obtain storage where s: "device_storage dtype = Some storage"
    using assms(3) device_storage_dom by auto
  have "locations st' (slot_hex slot) = Some (dtype, slot)"
    using add_device_success [OF assms(4)] by (simp split: if_splits)
  then have "get_location_type_and_size st' slot = Inr (code, storage)"
    using assms(1,2) c s by (simp add: resolve_bound_slot)
  with c s show ?thesis by simp
qed

lemma lower_Red: "lower ''Red'' = ''red''"
  by (simp add: lower_def lower_char_def)

theorem declare_then_resolve_witness:
  "(0::int) \<le> 3 \<and> (3::int) \<le> 11 \<and> ''led'' \<in> dom device_types \<and>
   fst (add_device (reset_devices_and_locations initial_symtab) 3 ''led'' (Some ''Red'')) = Inr True \<and>
   get_location_type_and_size
     (snd (add_device (reset_devices_and_locations initial_symtab) 3 ''led'' (Some ''Red''))) 3 =
     Inr (10, 4)"
proof -
  have k: "''led'' \<in> dom device_types"
    by (simp add: device_types_def)
  have f: "locations (reset_devices_and_locations initial_symtab) (slot_hex 3) = None"
    by (simp add: reset_devices_and_locations_def reset_locations_def slot_hex_def hexdigits_def)
  have a: "fst (add_device (reset_devices_and_locations initial_symtab) 3 ''led'' (Some ''Red'')) = Inr True"
    unfolding add_device_unfold [OF k _ _ f, simplified]
    by (simp add: lowered_name_def name_in_def lower_Red special_names_def
          reset_devices_and_locations_def reset_devices_def)
  then have e: "add_device (reset_devices_and_locations initial_symtab) 3 ''led'' (Some ''Red'') =
      (Inr True, snd (add_device (reset_devices_and_locations initial_symtab) 3 ''led'' (Some ''Red'')))"
    by (simp add: prod_eq_iff)
  show ?thesis
    using declare_then_resolve [OF _ _ k e] a k
    by (simp add: device_types_def device_storage_def)
qed


lemma slot_cases:
  "0 \<le> loc \<Longrightarrow> loc \<le> 11 \<Longrightarrow>
     loc = 0 \<or> loc = 1 \<or> loc = 2 \<or> loc = 3 \<or> loc = 4 \<or> loc = 5 \<or> loc = 6 \<or>
     loc = 7 \<or> loc = 8 \<or> loc = 9 \<or> loc = 10 \<or> loc = (11::int)"
  by arith

lemma add_device_keeps:
  assumes "locations st k = Some v"
  shows "locations (snd (add_device st loc dtype name)) k = Some v"
proof (cases "fst (add_device st loc dtype name)")
  case (Inl e)
  then have "add_device st loc dtype name = (Inl e, snd (add_device st loc dtype name))"
    by (simp add: prod_eq_iff)
  then have "snd (add_device st loc dtype name) = st"
    by (rule add_device_failure_state)
  then show ?thesis using assms by simp
next
  case (Inr b)
  then have e: "add_device st loc dtype name = (Inr b, snd (add_device st loc dtype name))"
    by (simp add: prod_eq_iff)
  show ?thesis
    using add_device_success [OF e] assms
    by (auto split: if_splits)
qed

lemma declared_after_keeps:
  "declared_after st st' \<Longrightarrow> locations st k = Some v \<Longrightarrow> locations st' k = Some v"
  by (induction rule: declared_after.induct) (simp_all add: add_device_keeps)

lemma reset_slot_free:
  assumes "0 \<le> slot" "slot \<le> 11"
  shows "reset_locations (slot_hex slot) = None"
  using slot_cases [OF assms]
  by (auto simp: reset_locations_def slot_hex_def hexdigits_def)

lemma reachable_slot_types:
  assumes "reachable st"
  shows "0 \<le> slot \<Longrightarrow> slot \<le> 11 \<Longrightarrow> locations st (slot_hex slot) = Some (d, l) \<Longrightarrow>
           d = ''motor_second'' \<or> d \<in> dom device_types"
  using assms
proof (induction arbitrary: slot d l rule: reachable.induct)
  case reachable_initial
  then show ?case by (simp add: initial_symtab_def)
next
  case (reachable_reset st)
  then show ?case by (simp add: reset_devices_and_locations_def reset_slot_free)
next
  case (reachable_add st loc dtype name)
  show ?case
  proof (cases "fst (add_device st loc dtype name)")
    case (Inl e)
    then have "add_device st loc dtype name = (Inl e, snd (add_device st loc dtype name))"
      by (simp add: prod_eq_iff)
    then have "snd (add_device st loc dtype name) = st"
      by (rule add_device_failure_state)
    then show ?thesis using reachable_add by simp
  next
    case (Inr b)
    then have e: "add_device st loc dtype name = (Inr b, snd (add_device st loc dtype name))"
      by (simp add: prod_eq_iff)
    show ?thesis
      using add_device_success [OF e] reachable_add.prems reachable_add.IH [of slot d l]
      by (auto split: if_splits)
  qed
qed


lemma reset_state_fields:
  "devices (reset_devices_and_locations st) = reset_devices"
  "locations (reset_devices_and_locations st) = reset_locations"
  by (simp_all add: reset_devices_and_locations_def)

lemma fmt_d_digit: "0 \<le> i \<Longrightarrow> i < 10 \<Longrightarrow> fmt_d i = [''0123456789'' ! nat i]"
  by (simp add: fmt_d_def nat_digits.simps)

lemma led_at_3:
  "add_device (reset_devices_and_locations initial_symtab) 3 ''led'' None =
     (Inr True, \<lparr>devices = reset_devices,
                 locations = reset_locations(''3'' \<mapsto> (''led'', 3))\<rparr>)"
proof -
  have k: "''led'' \<in> dom device_types"
    by (simp add: device_types_def)
  have f: "locations (reset_devices_and_locations initial_symtab) (slot_hex 3) = None"
    by (simp add: reset_state_fields reset_slot_free)
  show ?thesis
    unfolding add_device_unfold [OF k _ _ f, simplified]
    by (simp add: lowered_name_def name_in_def bound_devices_def reset_state_fields
          slot_hex_def hexdigits_def)
qed

text \<open>
  A slot can be occupied and the declaration still fail otherwise: the device type is
  checked first, so an unknown type at the occupied slot 3 is reported as error 200.
\<close>

theorem occupied_slot_unknown_type_counterexample:
  "locations (snd (add_device (reset_devices_and_locations initial_symtab) 3 ''led'' None)) ''3'' =
     Some (''led'', 3) \<and>
   fst (add_device (snd (add_device (reset_devices_and_locations initial_symtab) 3 ''led'' None))
          3 ''bogus'' None) = Inl (AsmError 200 ''Unknown device type: bogus'')"
proof -
  have "''bogus'' \<notin> dom device_types"
    by (simp add: device_types_dom)
  then show ?thesis
    by (simp add: led_at_3 add_device_unknown_type)
qed

text \<open>
  Claim C2, amended. In every state, a declaration with a recognized device type at a
  slot from 0 to 11 that is already occupied fails with error 202, whose message names
  the type of the occupant, and leaves both dictionaries as they were; and any call of
  \<^verbatim>\<open>add_device\<close> that fails leaves both dictionaries as they were.
\<close>

theorem occupied_slot_rejected:
  "(dtype \<in> dom device_types \<and> 0 \<le> slot \<and> slot \<le> 11 \<and>
      locations st (slot_hex slot) = Some occ \<longrightarrow>
      add_device st slot dtype name =
        (Inl (AsmError 202 (''Location ('' @ fmt_d slot @
           '') is already used with a unit of type: '' @ fst occ)), st)) \<and>
   (fst (add_device st loc' dtype' name') = Inl e \<longrightarrow>
      snd (add_device st loc' dtype' name') = st)"
proof (intro conjI impI)
  assume "dtype \<in> dom device_types \<and> 0 \<le> slot \<and> slot \<le> 11 \<and>
      locations st (slot_hex slot) = Some occ"
  then show "add_device st slot dtype name =
        (Inl (AsmError 202 (''Location ('' @ fmt_d slot @
           '') is already used with a unit of type: '' @ fst occ)), st)"
    by (simp add: add_device_occupied)
next
  assume "fst (add_device st loc' dtype' name') = Inl e"
  then have "add_device st loc' dtype' name' = (Inl e, snd (add_device st loc' dtype' name'))"
    by (simp add: prod_eq_iff)
  then show "snd (add_device st loc' dtype' name') = st"
    by (rule add_device_failure_state)
qed

theorem occupied_slot_rejected_witness:
  "''beeper'' \<in> dom device_types \<and> (0::int) \<le> 3 \<and> (3::int) \<le> 11 \<and>
   locations \<lparr>devices = reset_devices, locations = reset_locations(''3'' \<mapsto> (''led'', 3))\<rparr>
     (slot_hex 3) = Some (''led'', 3) \<and>
   add_device \<lparr>devices = reset_devices, locations = reset_locations(''3'' \<mapsto> (''led'', 3))\<rparr>
     3 ''beeper'' (Some ''Buzz'') =
     (Inl (AsmError 202 ''Location (3) is already used with a unit of type: led''),
      \<lparr>devices = reset_devices, locations = reset_locations(''3'' \<mapsto> (''led'', 3))\<rparr>) \<and>
   fst (add_device \<lparr>devices = reset_devices, locations = reset_locations(''3'' \<mapsto> (''led'', 3))\<rparr>
     3 ''beeper'' (Some ''Buzz'')) =
     Inl (AsmError 202 ''Location (3) is already used with a unit of type: led'') \<and>
   snd (add_device \<lparr>devices = reset_devices, locations = reset_locations(''3'' \<mapsto> (''led'', 3))\<rparr>
     3 ''beeper'' (Some ''Buzz'')) =
     \<lparr>devices = reset_devices, locations = reset_locations(''3'' \<mapsto> (''led'', 3))\<rparr>"
proof -
  have k: "''beeper'' \<in> dom device_types"
    by (simp add: device_types_dom)
  have h: "slot_hex 3 = ''3''"
    by (simp add: slot_hex_def hexdigits_def)
  show ?thesis
    using occupied_slot_rejected
      [of "''beeper''" 3
          "\<lparr>devices = reset_devices, locations = reset_locations(''3'' \<mapsto> (''led'', 3))\<rparr>"
          "(''led'', 3)" "Some ''Buzz''" 3 "''beeper''" "Some ''Buzz''"
          "AsmError 202 ''Location (3) is already used with a unit of type: led''"]
      k h
    by (simp add: fmt_d_digit)
qed


lemma motor_at_11:
  "add_device (reset_devices_and_locations initial_symtab) 11 ''motor-a'' None =
     (Inr True, \<lparr>devices = reset_devices,
                 locations = reset_locations(''0'' \<mapsto> (''motor_second'', 0),
                                             ''b'' \<mapsto> (''motor-a'', 11))\<rparr>)"
proof -
  have k: "''motor-a'' \<in> dom device_types"
    by (simp add: device_types_dom)
  have f: "locations (reset_devices_and_locations initial_symtab) (slot_hex 11) = None"
    by (simp add: reset_state_fields reset_slot_free)
  show ?thesis
    unfolding add_device_unfold [OF k _ _ f, simplified]
    by (simp add: lowered_name_def name_in_def bound_devices_def reset_state_fields
          slot_hex_def hexdigits_def motor_second_loc_def reset_locations_def)
qed

text \<open>
  After a motor at slot 11, a declaration at slot 0 with an unknown device type fails
  with error 200, not with error 202.
\<close>

theorem motor_then_unknown_type_counterexample:
  "fst (add_device (reset_devices_and_locations initial_symtab) 11 ''motor-a'' None) = Inr True \<and>
   fst (add_device (snd (add_device (reset_devices_and_locations initial_symtab) 11 ''motor-a'' None))
          0 ''bogus'' None) = Inl (AsmError 200 ''Unknown device type: bogus'')"
proof -
  have "''bogus'' \<notin> dom device_types"
    by (simp add: device_types_dom)
  then show ?thesis
    by (simp add: motor_at_11 add_device_unknown_type)
qed

text \<open>
  Claim C3, amended. A successful declaration of \<^verbatim>\<open>motor-a\<close> or \<^verbatim>\<open>motor-b\<close> at
  slot 11 binds slot 11 to the motor type and slot 0 to the marker \<^verbatim>\<open>motor_second\<close>;
  the only name it may bind refers to slot 11; and after any further calls of
  \<^verbatim>\<open>add_device\<close>, a declaration at slot 0 with a recognized device type fails with
  error 202, naming the marker.
\<close>

theorem motor_at_11_binds_0:
  assumes "dtype = ''motor-a'' \<or> dtype = ''motor-b''"
    and "add_device st 11 dtype name = (Inr True, st')"
    and "declared_after st' st''"
    and "dtype2 \<in> dom device_types"
  shows "locations st' ''b'' = Some (dtype, 11) \<and>
         locations st' ''0'' = Some (''motor_second'', 0) \<and>
         (\<forall>n. devices st' n \<noteq> devices st n \<longrightarrow> devices st' n = Some (dtype, 11)) \<and>
         add_device st'' 0 dtype2 name2 =
           (Inl (AsmError 202 ''Location (0) is already used with a unit of type: motor_second''),
            st'')"
proof -
  have h: "slot_hex 11 = ''b''" "slot_hex 0 = ''0''" "motor_second_loc 11 = 0"
    by (simp_all add: slot_hex_def hexdigits_def motor_second_loc_def)
  have l: "locations st' = (locations st)(''0'' \<mapsto> (''motor_second'', 0), ''b'' \<mapsto> (dtype, 11))"
    and d: "devices st' = bound_devices st 11 dtype (lowered_name name)"
    using add_device_success [OF assms(2)] assms(1) by (auto simp: h)
  have b: "locations st' ''b'' = Some (dtype, 11)"
    and z: "locations st' ''0'' = Some (''motor_second'', 0)"
    by (simp_all add: l)
  have n: "\<forall>n. devices st' n \<noteq> devices st n \<longrightarrow> devices st' n = Some (dtype, 11)"
    by (auto simp: d bound_devices_def split: option.splits if_splits)
  have "locations st'' (slot_hex 0) = Some (''motor_second'', 0)"
    using declared_after_keeps [OF assms(3) z] by (simp add: h)
  then have "add_device st'' 0 dtype2 name2 =
      (Inl (AsmError 202 (''Location ('' @ fmt_d 0 @
         '') is already used with a unit of type: '' @ fst (''motor_second'', 0::int))), st'')"
    using assms(4) by (intro add_device_occupied) simp_all
  then show ?thesis using b z n by (simp add: fmt_d_digit)
qed

theorem motor_at_11_binds_0_witness:
  "locations (snd (add_device (reset_devices_and_locations initial_symtab) 11 ''motor-a'' None)) ''b'' =
     Some (''motor-a'', 11) \<and>
   locations (snd (add_device (reset_devices_and_locations initial_symtab) 11 ''motor-a'' None)) ''0'' =
     Some (''motor_second'', 0) \<and>
   fst (add_device (snd (add_device (reset_devices_and_locations initial_symtab) 11 ''motor-a'' None))
          0 ''led'' (Some ''Lamp'')) =
     Inl (AsmError 202 ''Location (0) is already used with a unit of type: motor_second'')"
proof -
  have k: "''led'' \<in> dom device_types"
    by (simp add: device_types_dom)
  have e: "add_device (reset_devices_and_locations initial_symtab) 11 ''motor-a'' None =
      (Inr True, snd (add_device (reset_devices_and_locations initial_symtab) 11 ''motor-a'' None))"
    by (simp add: motor_at_11)
  show ?thesis
    using motor_at_11_binds_0 [OF _ e declared_refl k, of "Some ''Lamp''"]
    by simp
qed

text \<open>
  On the reserved slot 12 of a reset table the lookup raises: the type \<^verbatim>\<open>index\<close> has
  no entry in \<^verbatim>\<open>device_types\<close>.
\<close>

theorem resolve_reserved_slot_counterexample:
  "reachable (reset_devices_and_locations initial_symtab) \<and>
   get_location_type_and_size (reset_devices_and_locations initial_symtab) 12 =
     Inl (KeyError ''index'')"
proof -
  have "hexdigit_at 12 = Inr ''c''"
    by (simp add: hexdigit_at_def py_index_def hexdigits_def)
  then have "get_location_type_and_size (reset_devices_and_locations initial_symtab) 12 =
      Inl (KeyError ''index'')"
    by (simp add: get_location_type_and_size_def reset_state_fields reset_locations_def
          device_types_def)
  then show ?thesis
    by (simp add: reachable_initial reachable_reset)
qed

text \<open>
  Claim C4, amended. In every reachable state and for every slot from 0 to 11,
  \<^verbatim>\<open>get_location_type_and_size\<close> does not fail: it returns (0, 0) when the slot is
  free or holds the marker \<^verbatim>\<open>motor_second\<close>, and the code and the storage size of the
  occupying device type otherwise.
\<close>

theorem resolve_bus_slot:
  assumes "reachable st" "0 \<le> slot" "slot \<le> 11"
  shows "case locations st (slot_hex slot) of
           None \<Rightarrow> get_location_type_and_size st slot = Inr (0, 0)
         | Some occ \<Rightarrow>
             if fst occ = ''motor_second'' then get_location_type_and_size st slot = Inr (0, 0)
             else \<exists>code storage.
                    device_types (fst occ) = Some code \<and>
                    device_storage (fst occ) = Some storage \<and>
                    get_location_type_and_size st slot = Inr (code, storage)"
proof (cases "locations st (slot_hex slot)")
  case None
  then show ?thesis
    using assms(2,3) by (simp add: get_location_type_and_size_def hexdigit_at_slot)
next
  case (Some occ)
  show ?thesis
  proof (cases "fst occ = ''motor_second''")
    case True
    then show ?thesis
      using Some assms(2,3) by (simp add: get_location_type_and_size_def hexdigit_at_slot)
  next
    case False
    have "locations st (slot_hex slot) = Some (fst occ, snd occ)"
      using Some by simp
    then have k: "fst occ \<in> dom device_types"
      using reachable_slot_types [OF assms] False by blast
    then obtain code where c: "device_types (fst occ) = Some code"
      by auto
    obtain storage where s: "device_storage (fst occ) = Some storage"
      using k device_storage_dom by auto
    have "get_location_type_and_size st slot = Inr (code, storage)"
      using Some False c s assms(2,3)
      by (simp add: get_location_type_and_size_def hexdigit_at_slot)
    then show ?thesis using Some False c s by simp
  qed
qed

theorem resolve_bus_slot_witness:
  "reachable (snd (add_device (reset_devices_and_locations initial_symtab) 11 ''motor-a'' None)) \<and>
   get_location_type_and_size
     (snd (add_device (reset_devices_and_locations initial_symtab) 11 ''motor-a'' None)) 11 =
     Inr (8, 9) \<and>
   get_location_type_and_size
     (snd (add_device (reset_devices_and_locations initial_symtab) 11 ''motor-a'' None)) 0 =
     Inr (0, 0) \<and>
   get_location_type_and_size
     (snd (add_device (reset_devices_and_locations initial_symtab) 11 ''motor-a'' None)) 5 =
     Inr (0, 0)"
proof -
  have r: "reachable (snd (add_device (reset_devices_and_locations initial_symtab) 11 ''motor-a'' None))"
    by (intro reachable_add reachable_reset reachable_initial)
  have h: "slot_hex 11 = ''b''" "slot_hex 0 = ''0''" "slot_hex 5 = ''5''"
    by (simp_all add: slot_hex_def hexdigits_def)
  show ?thesis
    using r resolve_bus_slot [OF r, of 11] resolve_bus_slot [OF r, of 0]
      resolve_bus_slot [OF r, of 5]
    by (simp add: motor_at_11 h reset_locations_def device_types_def device_storage_def)
qed


section \<open>Properties of the tokenizer\<close>

lemma prechop_inv_append:
  assumes "prechop_inv in_string in_escape components comp1" "comp1 \<noteq> []"
    and "e' \<longrightarrow> s' \<noteq> []"
  shows "prechop_inv s' e' components (comp1 @ [ch])"
  using assms by (simp add: prechop_inv_def)

lemma prechop_inv_start:
  assumes "prechop_inv [] False components comp1" "ch \<noteq> CHR ''#''"
  shows "prechop_inv s' False components (comp1 @ [ch])"
  using assms by (auto simp: prechop_inv_def hd_append)

lemma prechop_inv_flush:
  assumes "prechop_inv [] False components comp1"
  shows "prechop_inv [] False (if comp1 \<noteq> [] then components @ [comp1] else components) []"
  using assms by (auto simp: prechop_inv_def)

lemma prechop_loop_segments:
  assumes "prechop_loop line in_string in_escape components comp1 = (cs, c)"
    and "prechop_inv in_string in_escape components comp1"
  shows "(\<forall>s\<in>set cs. s \<noteq> [] \<and> hd s \<noteq> CHR ''#'') \<and> (c = [] \<or> hd c \<noteq> CHR ''#'')"
  using assms
proof (induction line arbitrary: in_string in_escape components comp1)
  case Nil
  then show ?case by (simp add: prechop_inv_def)
next
  case (Cons ch line)
  note e = Cons.prems(1) and inv = Cons.prems(2)
  show ?case
  proof (cases "ch = CHR 0x0A")
    case True
    with e have "cs = components \<and> c = comp1" by simp
    with inv show ?thesis by (simp add: prechop_inv_def)
  next
    case nl: False
    show ?thesis
    proof (cases in_escape)
      case True
      with inv have s: "in_string \<noteq> []" and n: "comp1 \<noteq> []"
        by (simp_all add: prechop_inv_def)
      from e nl True have "prechop_loop line in_string False components (comp1 @ [ch]) = (cs, c)"
        by simp
      moreover have "prechop_inv in_string False components (comp1 @ [ch])"
        using inv n by (rule prechop_inv_append) simp
      ultimately show ?thesis by (rule Cons.IH)
    next
      case esc: False
      show ?thesis
      proof (cases "in_string = []")
        case outside: True
        with inv esc have inv0: "prechop_inv [] False components comp1"
          by simp
        show ?thesis
        proof (cases "ch = CHR ''#''")
          case True
          with e nl esc outside have "cs = components \<and> c = comp1" by simp
          with inv show ?thesis by (simp add: prechop_inv_def)
        next
          case hash: False
          show ?thesis
          proof (cases "ch = CHR 0x22")
            case True
            with e nl esc outside hash
            have "prechop_loop line [ch] False components (comp1 @ [ch]) = (cs, c)"
              by simp
            moreover have "prechop_inv [ch] False components (comp1 @ [ch])"
              using inv0 hash by (rule prechop_inv_start)
            ultimately show ?thesis by (rule Cons.IH)
          next
            case quote: False
            show ?thesis
            proof (cases "ch = CHR '' '' \<or> ch = CHR 0x09 \<or> ch = CHR '',''")
              case True
              with e nl esc outside hash quote
              have "prechop_loop line [] False
                      (if comp1 \<noteq> [] then components @ [comp1] else components) [] = (cs, c)"
                by auto
              moreover have "prechop_inv [] False
                  (if comp1 \<noteq> [] then components @ [comp1] else components) []"
                using inv0 by (rule prechop_inv_flush)
              ultimately show ?thesis by (rule Cons.IH)
            next
              case False
              with e nl esc outside hash quote
              have "prechop_loop line [] False components (comp1 @ [ch]) = (cs, c)"
                by simp
              moreover have "prechop_inv [] False components (comp1 @ [ch])"
                using inv0 hash by (rule prechop_inv_start)
              ultimately show ?thesis by (rule Cons.IH)
            qed
          qed
        qed
      next
        case inside: False
        with inv have n: "comp1 \<noteq> []"
          by (simp add: prechop_inv_def)
        show ?thesis
        proof (cases "ch = CHR 0x5C")
          case True
          with e nl esc inside
          have "prechop_loop line in_string True components comp1 = (cs, c)"
            by simp
          moreover have "prechop_inv in_string True components comp1"
            using inv inside by (auto simp: prechop_inv_def)
          ultimately show ?thesis by (rule Cons.IH)
        next
          case bs: False
          show ?thesis
          proof (cases "[ch] = in_string")
            case True
            with e nl esc inside bs
            have "prechop_loop line [] False components (comp1 @ [ch]) = (cs, c)"
              by auto
            moreover have "prechop_inv [] False components (comp1 @ [ch])"
              using inv n by (rule prechop_inv_append) simp
            ultimately show ?thesis by (rule Cons.IH)
          next
            case False
            with e nl esc inside bs
            have "prechop_loop line in_string False components (comp1 @ [ch]) = (cs, c)"
              by simp
            moreover have "prechop_inv in_string False components (comp1 @ [ch])"
              using inv n by (rule prechop_inv_append) simp
            ultimately show ?thesis by (rule Cons.IH)
          qed
        qed
      qed
    qed
  qed
qed

lemma chop_seg_Stop:
  "chop_seg st words s = Inr Stop \<longleftrightarrow> s \<noteq> [] \<and> startswith s ''#''"
  by (simp add: chop_seg_def split: sum.splits)

lemma startswith_hd: "startswith s [c] \<longleftrightarrow> s \<noteq> [] \<and> hd s = c"
  by (cases s) (simp_all add: startswith_def)

text \<open>
  Claim C10. For every line, no segment that \<^verbatim>\<open>prechop_line\<close> returns is empty or
  starts with \<^verbatim>\<open>#\<close>; so the comment test of \<^verbatim>\<open>chop_line\<close>
  (\<^verbatim>\<open>s.startswith('#')\<close>, the \<^verbatim>\<open>break\<close>) never fires on such a segment,
  whatever the words built so far and the symbol table.
\<close>

theorem prechop_no_comment_segment:
  "\<forall>s\<in>set (prechop_line line).
     s \<noteq> [] \<and> \<not> startswith s ''#'' \<and> chop_seg st words s \<noteq> Inr Stop"
proof -
  obtain cs c where e: "prechop_loop line [] False [] [] = (cs, c)"
    by (cases "prechop_loop line [] False [] []")
  have "(\<forall>s\<in>set cs. s \<noteq> [] \<and> hd s \<noteq> CHR ''#'') \<and> (c = [] \<or> hd c \<noteq> CHR ''#'')"
    by (rule prechop_loop_segments [OF e]) (simp add: prechop_inv_def)
  then have "\<forall>s\<in>set (prechop_line line). s \<noteq> [] \<and> hd s \<noteq> CHR ''#''"
    by (auto simp: prechop_line_def e)
  then show ?thesis
    by (simp add: chop_seg_Stop startswith_hd)
qed

theorem prechop_no_comment_segment_witness:
  "prechop_line ''led red, on  # comment'' = [''led'', ''red'', ''on''] \<and>
   \<not> startswith ''led'' ''#'' \<and> chop_seg initial_symtab [] ''led'' \<noteq> Inr Stop \<and>
   \<not> startswith ''red'' ''#'' \<and> chop_seg initial_symtab [] ''red'' \<noteq> Inr Stop \<and>
   \<not> startswith ''on'' ''#'' \<and> chop_seg initial_symtab [] ''on'' \<noteq> Inr Stop"
proof -
  have p: "prechop_line ''led red, on  # comment'' = [''led'', ''red'', ''on'']"
    by (simp add: prechop_line_def)
  show ?thesis
    using prechop_no_comment_segment [of "''led red, on  # comment''" initial_symtab "[]"]
    unfolding p by simp
qed

text \<open>
  Claim C5. The line \<^verbatim>\<open>say "hi, \"bob\""\<close> gives exactly two tokens: the operator
  \<^verbatim>\<open>say\<close> and the string \<^verbatim>\<open>hi, "bob"\<close>. The comma inside the quotes does not
  split the segment, and each escaped quote is kept without its backslash.
\<close>

theorem tokenize_say_quoted:
  "chop_line st (''say '' @ [CHR 0x22] @ ''hi, '' @ [CHR 0x5C, CHR 0x22] @ ''bob'' @
                 [CHR 0x5C, CHR 0x22, CHR 0x22]) =
     Inr [Word ''op'' (PStr ''say''),
          Word ''string'' (PStr (''hi, '' @ [CHR 0x22] @ ''bob'' @ [CHR 0x22]))]"
  by (simp add: chop_line_def prechop_line_def chop_seg_def startswith_def endswith_def)


section \<open>Properties of the resolver, of the numerals and of the accessors\<close>

lemmas py_int_eval =
  py_int_def py_strip_def py_isspace_def split_sign_def split_radix_def digit_value_def
  startswith_def lower_def lower_char_def

lemma takeWhile_to_sep: "sep \<notin> set a \<Longrightarrow> takeWhile (\<lambda>c. c \<noteq> sep) (a @ sep # b) = a"
  by (induction a) auto

lemma dropWhile_to_sep: "sep \<notin> set a \<Longrightarrow> dropWhile (\<lambda>c. c \<noteq> sep) (a @ sep # b) = sep # b"
  by (induction a) auto

lemma py_split_one_colon:
  "CHR '':'' \<notin> set a \<Longrightarrow> CHR '':'' \<notin> set b \<Longrightarrow>
     py_split (a @ CHR '':'' # b) (CHR '':'') 2 = [a, b]"
  by (simp add: numeral_2_eq_2 takeWhile_to_sep dropWhile_to_sep)

lemma lower_char_colon: "lower_char c = CHR '':'' \<longleftrightarrow> c = CHR '':''"
  by (auto simp: lower_char_def split: option.splits if_splits)

lemma lower_no_colon: "CHR '':'' \<notin> set r \<Longrightarrow> CHR '':'' \<notin> set (lower r)"
  by (metis (no_types) lower_def lower_char_colon imageE set_map)

text \<open>
  Claim C6, at two register parts that are neither a register name nor one hexadecimal
  digit. The test \<^verbatim>\<open>part[1] in '0123456789abcdef'\<close> is a substring test: on a
  reset table \<^verbatim>\<open>c:12\<close> resolves to 0x12 + (12 << 4) = 210, and \<^verbatim>\<open>c:\<close> reaches
  \<^verbatim>\<open>int('', 16)\<close>, a ValueError. Neither is reported as error 214.
\<close>

theorem register_part_substring:
  "parse_mod_reg (reset_devices_and_locations initial_symtab) ''c:12'' = Inr 210 \<and>
   parse_mod_reg (reset_devices_and_locations initial_symtab) ''c:'' = Inl (ValueError [])"
proof -
  have s1: "py_split (lower ''c:12'') (CHR '':'') 2 = [''c'', ''12'']"
    using py_split_one_colon [of "''c''" "''12''"] by (simp add: lower_def lower_char_def)
  have s2: "py_split (lower ''c:'') (CHR '':'') 2 = [''c'', []]"
    using py_split_one_colon [of "''c''" "[]"] by (simp add: lower_def lower_char_def)
  have i1: "py_int ''12'' 16 = Inr 18"
    by (simp add: py_int_eval)
  have i2: "py_int [] 16 = Inl (ValueError [])"
    by (simp add: py_int_eval)
  have c1: "py_contains ''0123456789abcdef'' ''12''"
    by (simp add: startswith_def)
  have c2: "py_contains ''0123456789abcdef'' []"
    by (simp add: startswith_def)
  have "\<exists>regs. registers ''index'' = Some regs \<and> regs ''12'' = None \<and> regs [] = None"
    by (simp add: registers_def)
  then obtain regs where r: "registers ''index'' = Some regs" "regs ''12'' = None" "regs [] = None"
    by blast
  have d: "reset_devices ''c'' = None" "reset_locations ''c'' = Some (''index'', 12)"
    by (simp_all add: reset_devices_def reset_locations_def)
  have p1: "parse_mod_reg (reset_devices_and_locations initial_symtab) ''c:12'' = Inr 210"
    by (simp add: parse_mod_reg_def s1 i1 c1 r d reset_state_fields hexdigits_def
          del: py_contains.simps)
  have p2: "parse_mod_reg (reset_devices_and_locations initial_symtab) ''c:'' = Inl (ValueError [])"
    by (simp add: parse_mod_reg_def s2 i2 c2 r d reset_state_fields hexdigits_def
          del: py_contains.simps)
  show ?thesis using p1 p2 by simp
qed


text \<open>
  The text \<^verbatim>\<open>zz\<close> has no colon: it is rejected as error 215 before any lookup of
  a module name.
\<close>

theorem resolve_zz_counterexample:
  "''zz'' \<notin> dom (devices (reset_devices_and_locations initial_symtab)) \<and>
   ''zz'' \<notin> dom (locations (reset_devices_and_locations initial_symtab)) \<and>
   parse_mod_reg (reset_devices_and_locations initial_symtab) ''zz'' =
     Inl (AsmError 215 ''Error - can't parse zz as a modreg'')"
  by (simp add: parse_mod_reg_def hexdigits_def reset_state_fields reset_devices_def
        reset_locations_def dom_def)

text \<open>
  Claim C7, amended. In every state, \<^verbatim>\<open>parse_mod_reg\<close> rejects the text \<^verbatim>\<open>zz\<close>
  with error 215 (it cannot be parsed as a module/register reference); and in the colon
  form \<^verbatim>\<open>zz:r\<close>, when \<^verbatim>\<open>zz\<close> is neither a device name nor a location, it
  fails with error 213, which names \<^verbatim>\<open>zz\<close>.
\<close>

theorem resolve_zz:
  "parse_mod_reg st ''zz'' = Inl (AsmError 215 ''Error - can't parse zz as a modreg'') \<and>
   (''zz'' \<notin> dom (devices st) \<and> ''zz'' \<notin> dom (locations st) \<and> CHR '':'' \<notin> set r \<longrightarrow>
      parse_mod_reg st (''zz:'' @ r) =
        Inl (AsmError 213 ''Didn't understand the module name/number: zz''))"
proof (intro conjI impI)
  show "parse_mod_reg st ''zz'' = Inl (AsmError 215 ''Error - can't parse zz as a modreg'')"
    by (simp add: parse_mod_reg_def hexdigits_def)
next
  assume a: "''zz'' \<notin> dom (devices st) \<and> ''zz'' \<notin> dom (locations st) \<and> CHR '':'' \<notin> set r"
  have "lower (''zz:'' @ r) = ''zz'' @ CHR '':'' # lower r"
    by (simp add: lower_def lower_char_def)
  then have s: "py_split (lower (''zz:'' @ r)) (CHR '':'') 2 = [''zz'', lower r]"
    using a py_split_one_colon [of "''zz''" "lower r"] by (simp add: lower_no_colon)
  have n: "devices st ''zz'' = None" "locations st ''zz'' = None"
    using a by auto
  show "parse_mod_reg st (''zz:'' @ r) =
      Inl (AsmError 213 ''Didn't understand the module name/number: zz'')"
    unfolding parse_mod_reg_def s Let_def by (simp add: n)
qed

theorem resolve_zz_witness:
  "''zz'' \<notin> dom (devices (reset_devices_and_locations initial_symtab)) \<and>
   ''zz'' \<notin> dom (locations (reset_devices_and_locations initial_symtab)) \<and>
   CHR '':'' \<notin> set ''status'' \<and>
   parse_mod_reg (reset_devices_and_locations initial_symtab) ''zz:status'' =
     Inl (AsmError 213 ''Didn't understand the module name/number: zz'')"
  using resolve_zz [of "reset_devices_and_locations initial_symtab" "''status''"]
  by (simp add: reset_state_fields reset_devices_def reset_locations_def dom_def)

lemma dquoted_first_last:
  assumes "startswith snum [CHR 0x22]" "endswith snum [CHR 0x22]"
  shows "snum \<noteq> [] \<and> hd snum = CHR 0x22 \<and> last snum = CHR 0x22"
proof -
  from assms(1) have n: "snum \<noteq> []" and h: "hd snum = CHR 0x22"
    by (cases snum; simp add: startswith_def)+
  from assms(2) have "drop (length snum - 1) snum = [CHR 0x22]"
    by (simp add: endswith_def)
  then have "last snum = CHR 0x22"
    using n by (metis last_drop last.simps diff_less length_greater_0_conv zero_less_one)
  with n h show ?thesis by simp
qed

lemma endswith_last:
  "endswith s p \<Longrightarrow> p \<noteq> [] \<Longrightarrow> s \<noteq> [] \<and> last s = last p"
  unfolding endswith_def
  by (metis append_take_drop_id last_appendR length_0_conv le_zero_eq)

lemma py_strip_unspaced:
  assumes "s \<noteq> []" "\<not> py_isspace (hd s)" "\<not> py_isspace (last s)"
  shows "py_strip s = s"
proof -
  have a: "dropWhile py_isspace s = s"
    using assms(2) by (simp add: dropWhile_eq_self_iff)
  have "hd (rev s) = last s"
    using assms(1) by (simp add: hd_rev)
  then have "dropWhile py_isspace (rev s) = rev s"
    using assms(3) by (simp add: dropWhile_eq_self_iff)
  with a show ?thesis by (simp add: py_strip_def)
qed

lemma py_int_dquoted:
  assumes "snum \<noteq> []" "hd snum = CHR 0x22" "last snum = CHR 0x22"
  shows "py_int snum 0 = Inl (ValueError snum)"
proof -
  obtain t where t: "snum = CHR 0x22 # t"
    using assms(1,2) by (cases snum) auto
  have s: "py_strip snum = snum"
    using assms by (intro py_strip_unspaced) (simp_all add: py_isspace_def)
  have g: "split_sign snum = (False, snum)"
    by (simp add: split_sign_def startswith_def t)
  have l: "lower (take 2 snum) \<noteq> ''0x''" "lower (take 2 snum) \<noteq> ''0o''"
    "lower (take 2 snum) \<noteq> ''0b''"
    by (simp_all add: t lower_def lower_char_def numeral_2_eq_2)
  have r: "split_radix 0 snum = (10, snum)"
    using l by (simp add: split_radix_def) (simp add: startswith_def t)
  have d: "digits_value 10 snum 0 = None"
    by (simp add: t digit_value_def)
  show ?thesis
    by (simp add: py_int_def s g r d assms(1))
qed

text \<open>
  The tokenizer and the accessors \<^verbatim>\<open>num\<close> and \<^verbatim>\<open>anum\<close> call
  \<^verbatim>\<open>parse_bases\<close> without its flag \<^verbatim>\<open>string\<close>: the numeral \<^verbatim>\<open>"12"\<close> in double
  quotes reaches \<^verbatim>\<open>int(snum, 0)\<close> and fails with a ValueError, not with error 211.
\<close>

theorem dquoted_numeral_counterexample:
  "chop_line initial_symtab (''set $'' @ [CHR 0x22] @ ''12'' @ [CHR 0x22]) =
     Inl (ValueError ([CHR 0x22] @ ''12'' @ [CHR 0x22])) \<and>
   num (Word ''arg'' (PStr ([CHR 0x22] @ ''12'' @ [CHR 0x22]))) =
     Inl (ValueError ([CHR 0x22] @ ''12'' @ [CHR 0x22])) \<and>
   anum (Word ''arg'' (PStr ([CHR 0x22] @ ''12'' @ [CHR 0x22]))) =
     Inl (ValueError ([CHR 0x22] @ ''12'' @ [CHR 0x22]))"
proof -
  have i: "py_int (CHR 0x22 # ''12'' @ [CHR 0x22]) 0 = Inl (ValueError (CHR 0x22 # ''12'' @ [CHR 0x22]))"
    by (rule py_int_dquoted) simp_all
  have p: "parse_bases (PStr (CHR 0x22 # ''12'' @ [CHR 0x22])) False =
      Inl (ValueError (CHR 0x22 # ''12'' @ [CHR 0x22]))"
    using i by (simp add: parse_bases_def startswith_def endswith_def)
  have s: "prechop_line (''set $'' @ [CHR 0x22] @ ''12'' @ [CHR 0x22]) =
      [''set'', CHR ''$'' # CHR 0x22 # ''12'' @ [CHR 0x22]]"
    by (simp add: prechop_line_def)
  have c: "chop_seg initial_symtab [Word ''op'' (PStr ''set'')]
      (CHR ''$'' # CHR 0x22 # ''12'' @ [CHR 0x22]) =
      Inl (ValueError (CHR 0x22 # ''12'' @ [CHR 0x22]))"
    using p by (simp add: chop_seg_def startswith_def endswith_def)
  have o: "chop_seg initial_symtab [] ''set'' = Inr (Emit (Word ''op'' (PStr ''set'')))"
    by (simp add: chop_seg_def startswith_def)
  have "chop_line initial_symtab (''set $'' @ [CHR 0x22] @ ''12'' @ [CHR 0x22]) =
      Inl (ValueError ([CHR 0x22] @ ''12'' @ [CHR 0x22]))"
    unfolding chop_line_def s using c o by simp
  then show ?thesis
    using p by (simp add: num_def anum_def)
qed

text \<open>
  Claim C8, amended. A text that starts and ends with a double quote makes
  \<^verbatim>\<open>parse_bases\<close> fail with error 211 (use single quotes) when the flag
  \<^verbatim>\<open>string\<close> is set, and with the ValueError of \<^verbatim>\<open>int\<close>, carrying the text,
  when the flag is not set, which is how the tokenizer and the accessors call it.
\<close>

theorem dquoted_numeral:
  assumes "startswith snum [CHR 0x22]" "endswith snum [CHR 0x22]"
  shows "parse_bases (PStr snum) True =
           Inl (AsmError 211 ''Error - use single quotes for an ascii constant'') \<and>
         parse_bases (PStr snum) False = Inl (ValueError snum)"
proof -
  have f: "snum \<noteq> []" "hd snum = CHR 0x22" "last snum = CHR 0x22"
    using dquoted_first_last [OF assms] by simp_all
  have q: "\<not> startswith snum [CHR 0x27]"
    using f by (cases snum) (simp_all add: startswith_def)
  have e: "\<not> endswith snum ''/2''" "\<not> endswith snum ''/10''" "\<not> endswith snum ''/16''"
    using f(3) endswith_last [of snum "''/2''"] endswith_last [of snum "''/10''"]
      endswith_last [of snum "''/16''"] by auto
  show ?thesis
    using assms q e py_int_dquoted [OF f] by (simp add: parse_bases_def)
qed

theorem dquoted_numeral_witness:
  "startswith ([CHR 0x22] @ ''12'' @ [CHR 0x22]) [CHR 0x22] \<and>
   endswith ([CHR 0x22] @ ''12'' @ [CHR 0x22]) [CHR 0x22] \<and>
   parse_bases (PStr ([CHR 0x22] @ ''12'' @ [CHR 0x22])) True =
     Inl (AsmError 211 ''Error - use single quotes for an ascii constant'') \<and>
   parse_bases (PStr ([CHR 0x22] @ ''12'' @ [CHR 0x22])) False =
     Inl (ValueError ([CHR 0x22] @ ''12'' @ [CHR 0x22]))"
  using dquoted_numeral [of "[CHR 0x22] @ ''12'' @ [CHR 0x22]"]
  by (simp add: startswith_def endswith_def)

text \<open>
  Claim C9, at two tokens. The tokenizer stores the constant of \<^verbatim>\<open>$65\<close> as an
  integer; \<^verbatim>\<open>num\<close> on that token raises (an integer has no \<^verbatim>\<open>startswith\<close>)
  instead of returning 65, and \<^verbatim>\<open>num\<close> on an operator token decodes its text
  instead of failing with a kind mismatch. The sibling accessor \<^verbatim>\<open>anum\<close> does both.
\<close>

theorem num_accessor_unchecked:
  "chop_line initial_symtab ''set $65'' =
     Inr [Word ''op'' (PStr ''set''), Word ''const'' (PInt 65)] \<and>
   num (Word ''const'' (PInt 65)) = Inl AttributeError \<and>
   num (Word ''op'' (PStr ''12'')) = Inr 12 \<and>
   anum (Word ''const'' (PInt 65)) = Inr (PInt 65) \<and>
   anum (Word ''op'' (PStr ''12'')) = Inl (AsmError 207 ''Expected an argument or constant!'')"
proof -
  have i: "py_int ''65'' 0 = Inr 65" "py_int ''12'' 0 = Inr 12"
    by (simp_all add: py_int_eval)
  have p: "parse_bases (PStr ''65'') False = Inr 65" "parse_bases (PStr ''12'') False = Inr 12"
    using i by (simp_all add: parse_bases_def startswith_def endswith_def)
  have s: "prechop_line ''set $65'' = [''set'', ''$65'']"
    by (simp add: prechop_line_def)
  have o: "chop_seg initial_symtab [] ''set'' = Inr (Emit (Word ''op'' (PStr ''set'')))"
    by (simp add: chop_seg_def startswith_def)
  have c: "chop_seg initial_symtab [Word ''op'' (PStr ''set'')] ''$65'' =
      Inr (Emit (Word ''const'' (PInt 65)))"
    using p by (simp add: chop_seg_def startswith_def endswith_def)
  have "chop_line initial_symtab ''set $65'' =
      Inr [Word ''op'' (PStr ''set''), Word ''const'' (PInt 65)]"
    unfolding chop_line_def s using c o by simp
  then show ?thesis
    using p by (simp add: num_def anum_def parse_bases_def)
qed


end
